theory Spec2Isabelle
  imports Main "HOL-Library.Sublist"
begin

section \<open>Python values, as the handlers see them\<close>

text \<open>
  The four Lambda handlers of the flight-booking API take the API Gateway event, a
  JSON-decoded Python dict, and return a Python dict. The values they meet are \<open>None\<close>,
  booleans, unbounded integers, floats, strings, lists, dicts with string keys, and
  \<open>decimal.Decimal\<close>, the type in which the boto3 table of \<open>flights/handler.py\<close> hands
  back every number attribute. A dict is an association list in insertion order
  (Python dicts keep it, and \<open>json.dumps\<close> prints in that order); \<open>map_of\<close> is the
  lookup. Strings are lists of 8-bit characters, read as the code points below 256.
  The handlers do no arithmetic: a float is given by its \<open>repr\<close>, the text Python prints
  for it (\<open>89.99\<close>, \<open>0.0\<close>, \<open>nan\<close>), and a finite Decimal by its coefficient and exponent
  (\<open>89.99\<close> is \<open>PDecimal 8999 (-2)\<close>).
\<close>

datatype pyval =
    PNone
  | PBool bool
  | PInt int
  | PFloat string
  | PDecimal int int
  | PStr string
  | PList "pyval list"
  | PDict "(string \<times> pyval) list"

type_synonym pydict = "(string \<times> pyval) list"

text \<open>
  The exceptions the handlers can raise. \<open>AttributeError\<close>, \<open>TypeError\<close> and \<open>ValueError\<close>
  carry their message, \<open>KeyError\<close> the missing key.
\<close>

datatype exn = KeyError string | AttributeError string | TypeError string | ValueError string

text \<open>The type's name as error messages print it.\<close>

fun type_name :: "pyval \<Rightarrow> string" where
  "type_name PNone = ''NoneType''"
| "type_name (PBool b) = ''bool''"
| "type_name (PInt i) = ''int''"
| "type_name (PFloat r) = ''float''"
| "type_name (PDecimal c e) = ''decimal.Decimal''"
| "type_name (PStr s) = ''str''"
| "type_name (PList xs) = ''list''"
| "type_name (PDict d) = ''dict''"

text \<open>\<open>str(e)\<close>: the message; for a \<open>KeyError\<close> the key in quotes.\<close>

fun py_str_exn :: "exn \<Rightarrow> string" where
  "py_str_exn (KeyError k) = [CHR 0x27] @ k @ [CHR 0x27]"
| "py_str_exn (AttributeError m) = m"
| "py_str_exn (TypeError m) = m"
| "py_str_exn (ValueError m) = m"

text \<open>Truth value of an object, as \<open>not x\<close> and \<open>x or y\<close> test it.\<close>

fun truthy :: "pyval \<Rightarrow> bool" where
  "truthy PNone = False"
| "truthy (PBool b) = b"
| "truthy (PInt i) = (i \<noteq> 0)"
| "truthy (PFloat r) = (r \<noteq> ''0.0'' \<and> r \<noteq> ''-0.0'')"
| "truthy (PDecimal c e) = (c \<noteq> 0)"
| "truthy (PStr s) = (s \<noteq> [])"
| "truthy (PList xs) = (xs \<noteq> [])"
| "truthy (PDict d) = (d \<noteq> [])"

text \<open>\<open>d[k]\<close> on a dict: \<open>KeyError\<close> when the key is missing.\<close>

definition py_index :: "pydict \<Rightarrow> string \<Rightarrow> exn + pyval" where
  "py_index d k = (case map_of d k of None \<Rightarrow> Inl (KeyError k) | Some v \<Rightarrow> Inr v)"

text \<open>
  \<open>x.get(k, dflt)\<close>: the default only when \<open>x\<close> is a dict without the key \<open>k\<close>; an
  object that is not a dict has no \<open>get\<close> attribute.
\<close>

fun py_get :: "pyval \<Rightarrow> string \<Rightarrow> pyval \<Rightarrow> exn + pyval" where
  "py_get (PDict d) k dflt = Inr (case map_of d k of None \<Rightarrow> dflt | Some v \<Rightarrow> v)"
| "py_get v k dflt =
     Inl (AttributeError ([CHR 0x27] @ type_name v @ ''' object has no attribute 'get'' @ [CHR 0x27]))"

text \<open>
  \<open>s in x\<close> for a string \<open>s\<close>: a contiguous substring of a string, an element of a
  list, a key of a dict; any other \<open>x\<close> is not iterable.
\<close>

fun py_in :: "string \<Rightarrow> pyval \<Rightarrow> exn + bool" where
  "py_in s (PStr t) = Inr (sublist s t)"
| "py_in s (PList xs) = Inr (PStr s \<in> set xs)"
| "py_in s (PDict d) = Inr (s \<in> fst ` set d)"
| "py_in s v =
     Inl (TypeError (''argument of type '' @ [CHR 0x27] @ type_name v @ ''' is not iterable''))"

section \<open>json.dumps\<close>

text \<open>
  \<open>json.dumps\<close> with its defaults. First the text it produces: separators \<open>", "\<close> and
  \<open>": "\<close>, and \<open>ensure_ascii\<close>, which escapes the quote, the backslash and every
  character outside the range from space to tilde.
\<close>

definition hex_digit :: "nat \<Rightarrow> char" where
  "hex_digit n = ''0123456789abcdef'' ! (n mod 16)"

definition escape_char :: "char \<Rightarrow> string" where
  \<open>escape_char c =
     (if c = CHR 0x22 then [CHR 0x5C, CHR 0x22]
      else if c = CHR 0x5C then [CHR 0x5C, CHR 0x5C]
      else if c = CHR 0x08 then [CHR 0x5C, CHR ''b'']
      else if c = CHR 0x0C then [CHR 0x5C, CHR ''f'']
      else if c = CHR 0x0A then [CHR 0x5C, CHR ''n'']
      else if c = CHR 0x0D then [CHR 0x5C, CHR ''r'']
      else if c = CHR 0x09 then [CHR 0x5C, CHR ''t'']
      else if of_char c < (32::nat) \<or> (126::nat) < of_char c
        then [CHR 0x5C, CHR ''u'', CHR ''0'', CHR ''0'',
              hex_digit (of_char c div 16), hex_digit (of_char c)]
      else [c])\<close>

definition json_string :: "string \<Rightarrow> string" where
  \<open>json_string s = [CHR 0x22] @ concat (map escape_char s) @ [CHR 0x22]\<close>

fun digits :: "nat \<Rightarrow> string" where
  "digits n =
     (if n < 10 then [char_of (48 + n)]
      else digits (n div 10) @ [char_of (48 + n mod 10)])"

declare digits.simps [simp del]

definition json_int :: "int \<Rightarrow> string" where
  "json_int i = (if i < 0 then ''-'' @ digits (nat (- i)) else digits (nat i))"

text \<open>A float prints as its \<open>repr\<close>, but for the three names \<open>json\<close> has of its own.\<close>

definition json_float :: "string \<Rightarrow> string" where
  "json_float r =
     (if r = ''nan'' then ''NaN''
      else if r = ''inf'' then ''Infinity''
      else if r = ''-inf'' then ''-Infinity''
      else r)"

fun join :: "'a list \<Rightarrow> 'a list list \<Rightarrow> 'a list" where
  "join sep [] = []"
| "join sep [x] = x"
| "join sep (x # y # ys) = x @ sep @ join sep (y # ys)"

text \<open>
  The encoder walks the value in order and raises at the first object it cannot print:
  \<open>TypeError\<close> for a Decimal, which is not one of its types, and \<open>ValueError\<close> for an
  integer of more than 4300 decimal digits, CPython's default limit on converting an
  \<open>int\<close> to text. \<open>collect\<close> gathers the texts of the parts up to the first exception.
  Values are taken to nest less deeply than the interpreter's recursion limit, as
  items of the table (at most 32 levels) and JSON-decoded events do.
\<close>

fun collect :: "(exn + 'a) list \<Rightarrow> exn + 'a list" where
  "collect [] = Inr []"
| "collect (Inl e # rs) = Inl e"
| "collect (Inr t # rs) = (case collect rs of Inl e \<Rightarrow> Inl e | Inr ts \<Rightarrow> Inr (t # ts))"

fun json_dumps :: "pyval \<Rightarrow> exn + string" where
  "json_dumps PNone = Inr ''null''"
| "json_dumps (PBool b) = Inr (if b then ''true'' else ''false'')"
| "json_dumps (PInt i) =
     (if 4300 < length (digits (nat \<bar>i\<bar>))
      then Inl (ValueError ''Exceeds the limit (4300 digits) for integer string conversion; use sys.set_int_max_str_digits() to increase the limit'')
      else Inr (json_int i))"
| "json_dumps (PFloat r) = Inr (json_float r)"
| "json_dumps (PDecimal c e) =
     Inl (TypeError ''Object of type Decimal is not JSON serializable'')"
| "json_dumps (PStr s) = Inr (json_string s)"
| "json_dumps (PList xs) =
     (case collect (map json_dumps xs) of
        Inl e \<Rightarrow> Inl e
      | Inr ts \<Rightarrow> Inr (''['' @ join '', '' ts @ '']''))"
| "json_dumps (PDict d) =
     (case collect (map (\<lambda>(k, v). case json_dumps v of
                                     Inl e \<Rightarrow> Inl e
                                   | Inr t \<Rightarrow> Inr (json_string k @ '': '' @ t)) d) of
        Inl e \<Rightarrow> Inl e
      | Inr ts \<Rightarrow> Inr (''{'' @ join '', '' ts @ ''}''))"

section \<open>The record store\<close>

text \<open>
  The DynamoDB table is outside the repository: the handlers call \<open>table.scan()\<close> and
  \<open>table.get_item(Key=...)\<close> on it. A store is what these two calls do: each returns a
  value, or raises an exception \<open>e\<close>, given here by its text \<open>str(e)\<close>. Nothing is
  assumed of the store beyond that. Every call is logged, so that a theorem can say
  which store calls an invocation made.
\<close>

record store =
  scan :: "string + pyval"
  get_item :: "pyval \<Rightarrow> string + pyval"

datatype store_call = Scan | GetItem pyval

type_synonym outcome = "(exn + pyval) \<times> store_call list"

section \<open>src/flights/handler.py\<close>

text \<open>
  \<open>list_flights\<close>. The scan, the read of \<open>Items\<close> and the \<open>json.dumps\<close> of the 200
  response are inside \<open>try\<close>: \<open>attempt\<close> is the response, or \<open>str(e)\<close> of the exception
  raised there. The \<open>except\<close> clause then builds the 500 response from that text.
\<close>

definition list_flights :: "store \<Rightarrow> pydict \<Rightarrow> outcome" where
  "list_flights st event =
     (let attempt =
        (case scan st of
           Inl m \<Rightarrow> Inl m
         | Inr response \<Rightarrow>
        (case py_get response ''Items'' (PList []) of
           Inl e \<Rightarrow> Inl (py_str_exn e)
         | Inr items \<Rightarrow>
        (case json_dumps (PDict [(''success'', PBool True), (''data'', items)]) of
           Inl e \<Rightarrow> Inl (py_str_exn e)
         | Inr body \<Rightarrow>
             Inr (PDict [(''statusCode'', PInt 200),
                         (''headers'', PDict [(''Content-Type'', PStr ''application/json''),
                                             (''Access-Control-Allow-Origin'', PStr ''*'')]),
                         (''body'', PStr body)]))))
      in case attempt of
           Inr result \<Rightarrow> (Inr result, [Scan])
         | Inl m \<Rightarrow>
        (case json_dumps (PDict [(''error'', PStr m)]) of
           Inl e \<Rightarrow> (Inl e, [Scan])
         | Inr body \<Rightarrow>
             (Inr (PDict [(''statusCode'', PInt 500), (''body'', PStr body)]), [Scan])))"

text \<open>
  \<open>get_flight\<close>. The two \<open>get\<close> calls on the event and the missing-id check come before
  \<open>try\<close>, so an exception there leaves the function. The store call, the read of
  \<open>Item\<close>, the 404 and the 200 response are inside \<open>try\<close>, as in \<open>list_flights\<close>.
\<close>

definition get_flight :: "store \<Rightarrow> pydict \<Rightarrow> outcome" where
  "get_flight st event =
     (case py_get (PDict event) ''pathParameters'' (PDict []) of
        Inl e \<Rightarrow> (Inl e, [])
      | Inr path_params \<Rightarrow>
     (case py_get path_params ''flight_id'' (PStr []) of
        Inl e \<Rightarrow> (Inl e, [])
      | Inr flight_id \<Rightarrow>
     if \<not> truthy flight_id then
       (case json_dumps (PDict [(''error'', PStr ''Missing flight_id'')]) of
          Inl e \<Rightarrow> (Inl e, [])
        | Inr body \<Rightarrow> (Inr (PDict [(''statusCode'', PInt 400), (''body'', PStr body)]), []))
     else
     (let calls = [GetItem (PDict [(''flight_id'', flight_id)])];
          attempt =
        (case get_item st (PDict [(''flight_id'', flight_id)]) of
           Inl m \<Rightarrow> Inl m
         | Inr response \<Rightarrow>
        (case py_get response ''Item'' PNone of
           Inl e \<Rightarrow> Inl (py_str_exn e)
         | Inr item \<Rightarrow>
        if \<not> truthy item then
          (case json_dumps (PDict [(''error'', PStr ''Flight not found'')]) of
             Inl e \<Rightarrow> Inl (py_str_exn e)
           | Inr body \<Rightarrow> Inr (PDict [(''statusCode'', PInt 404), (''body'', PStr body)]))
        else
        (case json_dumps (PDict [(''success'', PBool True), (''data'', item)]) of
           Inl e \<Rightarrow> Inl (py_str_exn e)
         | Inr body \<Rightarrow>
             Inr (PDict [(''statusCode'', PInt 200),
                         (''headers'', PDict [(''Content-Type'', PStr ''application/json''),
                                             (''Access-Control-Allow-Origin'', PStr ''*'')]),
                         (''body'', PStr body)]))))
      in case attempt of
           Inr result \<Rightarrow> (Inr result, calls)
         | Inl m \<Rightarrow>
        (case json_dumps (PDict [(''error'', PStr m)]) of
           Inl e \<Rightarrow> (Inl e, calls)
         | Inr body \<Rightarrow>
             (Inr (PDict [(''statusCode'', PInt 500), (''body'', PStr body)]), calls)))))"

text \<open>\<open>f(event) or fallback\<close>: the fallback replaces a returned value that is falsy.\<close>

definition or_else :: "outcome \<Rightarrow> pyval \<Rightarrow> outcome" where
  "or_else r fallback =
     (case r of
        (Inl e, calls) \<Rightarrow> (Inl e, calls)
      | (Inr v, calls) \<Rightarrow> (Inr (if truthy v then v else fallback), calls))"

text \<open>
  The router, \<open>lambda_handler\<close> of the flights module (its \<open>context\<close> argument is
  never read, here and in the stubs). The 404 at its end is reached from a method
  other than GET and from a GET path that matches neither test.
\<close>

definition flights_lambda_handler :: "store \<Rightarrow> pydict \<Rightarrow> outcome" where
  "flights_lambda_handler st event =
     (let not_found =
        (case json_dumps (PDict [(''error'', PStr ''Not found'')]) of
           Inl e \<Rightarrow> (Inl e, [])
         | Inr body \<Rightarrow> (Inr (PDict [(''statusCode'', PInt 404), (''body'', PStr body)]), []))
      in
      case py_index event ''httpMethod'' of
        Inl e \<Rightarrow> (Inl e, [])
      | Inr http_method \<Rightarrow>
     (case py_index event ''path'' of
        Inl e \<Rightarrow> (Inl e, [])
      | Inr path \<Rightarrow>
     if http_method = PStr ''GET'' then
       if path = PStr ''/flights'' then
         or_else (list_flights st event)
           (PDict [(''statusCode'', PInt 204), (''body'', PStr ''No flights found'')])
       else
         (case py_in ''/flights/'' path of
            Inl e \<Rightarrow> (Inl e, [])
          | Inr found \<Rightarrow>
              if found then
                or_else (get_flight st event)
                  (PDict [(''statusCode'', PInt 204), (''body'', PStr ''Flight not found'')])
              else not_found)
     else not_found))"

section \<open>The stub handlers\<close>

text \<open>
  Each stub prints the event first (\<open>json.dumps(event)\<close> may raise, and then nothing is
  printed), then reads \<open>httpMethod\<close> and \<open>path\<close>. The result comes with the lines
  printed.
\<close>

type_synonym stub_outcome = "(exn + pyval) \<times> string list"

definition auth_lambda_handler :: "pydict \<Rightarrow> stub_outcome" where
  "auth_lambda_handler event =
     (case json_dumps (PDict event) of
        Inl e \<Rightarrow> (Inl e, [])
      | Inr dumped \<Rightarrow>
     (let out = [''Received event: '' @ dumped] in
      case py_index event ''httpMethod'' of
        Inl e \<Rightarrow> (Inl e, out)
      | Inr http_method \<Rightarrow>
     (case py_index event ''path'' of
        Inl e \<Rightarrow> (Inl e, out)
      | Inr path \<Rightarrow>
     (case json_dumps (PDict
             [(''message'', PStr ''Auth endpoint not implemented yet''),
              (''received_path'', path),
              (''received_method'', http_method)]) of
        Inl e \<Rightarrow> (Inl e, out)
      | Inr body \<Rightarrow>
       (Inr (PDict [(''statusCode'', PInt 501),
                    (''headers'', PDict [(''Content-Type'', PStr ''application/json''),
                                        (''Access-Control-Allow-Origin'', PStr ''*'')]),
                    (''body'', PStr body)]),
        out)))))"

definition bookings_lambda_handler :: "pydict \<Rightarrow> stub_outcome" where
  "bookings_lambda_handler event =
     (case json_dumps (PDict event) of
        Inl e \<Rightarrow> (Inl e, [])
      | Inr dumped \<Rightarrow>
     (let out = [''Received event: '' @ dumped] in
      case py_index event ''httpMethod'' of
        Inl e \<Rightarrow> (Inl e, out)
      | Inr http_method \<Rightarrow>
     (case py_index event ''path'' of
        Inl e \<Rightarrow> (Inl e, out)
      | Inr path \<Rightarrow>
     (case json_dumps (PDict
             [(''message'', PStr ''Bookings endpoint not implemented yet''),
              (''received_path'', path),
              (''received_method'', http_method),
              (''note'', PStr ''Will handle: create booking, list bookings, cancel booking'')]) of
        Inl e \<Rightarrow> (Inl e, out)
      | Inr body \<Rightarrow>
       (Inr (PDict [(''statusCode'', PInt 501),
                    (''headers'', PDict [(''Content-Type'', PStr ''application/json''),
                                        (''Access-Control-Allow-Origin'', PStr ''*'')]),
                    (''body'', PStr body)]),
        out)))))"

text \<open>
  The users stub also looks for the header: \<open>headers.get('Authorization') or
  headers.get('authorization')\<close>, the second \<open>get\<close> evaluated only when the first
  value is falsy, and then \<open>auth_header is not None\<close>.
\<close>

definition users_lambda_handler :: "pydict \<Rightarrow> stub_outcome" where
  "users_lambda_handler event =
     (case json_dumps (PDict event) of
        Inl e \<Rightarrow> (Inl e, [])
      | Inr dumped \<Rightarrow>
     (let out = [''Received event: '' @ dumped] in
      case py_index event ''httpMethod'' of
        Inl e \<Rightarrow> (Inl e, out)
      | Inr http_method \<Rightarrow>
     (case py_index event ''path'' of
        Inl e \<Rightarrow> (Inl e, out)
      | Inr path \<Rightarrow>
     (case py_get (PDict event) ''headers'' (PDict []) of
        Inl e \<Rightarrow> (Inl e, out)
      | Inr headers \<Rightarrow>
     (case py_get headers ''Authorization'' PNone of
        Inl e \<Rightarrow> (Inl e, out)
      | Inr upper \<Rightarrow>
     (case (if truthy upper then Inr upper else py_get headers ''authorization'' PNone) of
        Inl e \<Rightarrow> (Inl e, out)
      | Inr auth_header \<Rightarrow>
     (case json_dumps (PDict
             [(''message'', PStr ''Users endpoint not implemented yet''),
              (''received_path'', path),
              (''received_method'', http_method),
              (''has_auth_header'', PBool (auth_header \<noteq> PNone)),
              (''note'', PStr ''Will return user profile based on JWT token'')]) of
        Inl e \<Rightarrow> (Inl e, out)
      | Inr body \<Rightarrow>
       (Inr (PDict [(''statusCode'', PInt 501),
                    (''headers'', PDict [(''Content-Type'', PStr ''application/json''),
                                        (''Access-Control-Allow-Origin'', PStr ''*'')]),
                    (''body'', PStr body)]),
        out))))))))"

section \<open>Reading a response, and stores to run the handlers on\<close>

definition status_code :: "pyval \<Rightarrow> pyval option" where
  "status_code r = (case r of PDict d \<Rightarrow> map_of d ''statusCode'' | _ \<Rightarrow> None)"

definition response_headers :: "pyval \<Rightarrow> pyval option" where
  "response_headers r = (case r of PDict d \<Rightarrow> map_of d ''headers'' | _ \<Rightarrow> None)"

text \<open>
  The table of the module is \<open>boto3.resource('dynamodb').Table(FLIGHTS_TABLE)\<close>. Its items
  are made of DynamoDB's attribute values (string, number, boolean, null, list, map;
  sets and binary are left out), and the resource hands each item back as Python
  values: a string as \<open>str\<close>, and every number as \<open>decimal.Decimal\<close>, never as \<open>int\<close> or
  \<open>float\<close>.
\<close>

datatype attr =
    AttrS string
  | AttrN int int
  | AttrBool bool
  | AttrNull
  | AttrL "attr list"
  | AttrM "(string \<times> attr) list"

type_synonym item = "(string \<times> attr) list"

fun deserialize :: "attr \<Rightarrow> pyval" where
  "deserialize (AttrS s) = PStr s"
| "deserialize (AttrN c e) = PDecimal c e"
| "deserialize (AttrBool b) = PBool b"
| "deserialize AttrNull = PNone"
| "deserialize (AttrL xs) = PList (map deserialize xs)"
| "deserialize (AttrM d) = PDict (map (\<lambda>(k, v). (k, deserialize v)) d)"

text \<open>
  A store that answers from a list of items: the scan returns them in order under
  \<open>Items\<close>, and \<open>get_item\<close> returns under \<open>Item\<close> the first item whose \<open>flight_id\<close> is the
  one of the key, or a response without \<open>Item\<close>.
\<close>

definition table_store :: "item list \<Rightarrow> store" where
  "table_store items =
     \<lparr> scan = Inr (PDict [(''Items'', PList (map (\<lambda>r. deserialize (AttrM r)) items)),
                          (''Count'', PInt (int (length items))),
                          (''ScannedCount'', PInt (int (length items)))]),
       get_item = (\<lambda>key.
         case find (\<lambda>r. case map_of r ''flight_id'' of
                            None \<Rightarrow> False
                          | Some a \<Rightarrow> key = PDict [(''flight_id'', deserialize a)]) items of
           None \<Rightarrow> Inr (PDict [])
         | Some r \<Rightarrow> Inr (PDict [(''Item'', deserialize (AttrM r))])) \<rparr>"

text \<open>A store whose every call raises an exception with the text \<open>m\<close>.\<close>

definition failing_store :: "string \<Rightarrow> store" where
  "failing_store m = \<lparr> scan = Inl m, get_item = (\<lambda>key. Inl m) \<rparr>"

text \<open>
  Three items: the flight of the spec's example and of the docstrings, with its price
  and seat count; one with a seat count only; one made of strings only.
\<close>

definition flight_FL123 :: item where
  "flight_FL123 =
     [(''flight_id'', AttrS ''FL123''), (''origin'', AttrS ''MAD''),
      (''destination'', AttrS ''BCN''), (''price'', AttrN 8999 (-2)),
      (''available_seats'', AttrN 45 0)]"

definition flight_FL200 :: item where
  "flight_FL200 =
     [(''flight_id'', AttrS ''FL200''), (''origin'', AttrS ''BCN''),
      (''destination'', AttrS ''LIS''), (''available_seats'', AttrN 0 0)]"

definition flight_FL300 :: item where
  "flight_FL300 =
     [(''flight_id'', AttrS ''FL300''), (''origin'', AttrS ''MAD''),
      (''destination'', AttrS ''BCN''), (''departure_time'', AttrS ''2024-11-15T10:00:00Z'')]"

definition get_event :: "string \<Rightarrow> string \<Rightarrow> pydict" where
  "get_event path fid =
     [(''httpMethod'', PStr ''GET''), (''path'', PStr path),
      (''pathParameters'', PDict [(''flight_id'', PStr fid)])]"

section \<open>What json.dumps refuses\<close>

lemma digits_not_empty: "digits n \<noteq> []"
  by (subst digits.simps) simp

lemma digits_length: "0 < k \<Longrightarrow> k < length (digits n) \<longleftrightarrow> 10 ^ k \<le> n"
proof (induction n arbitrary: k rule: digits.induct)
  case (1 n)
  show ?case
  proof (cases "n < 10")
    case True
    have "(10::nat) ^ 1 \<le> 10 ^ k"
      using "1.prems" by (intro power_increasing) simp_all
    with True show ?thesis
      using "1.prems" by (simp add: digits.simps [of n])
  next
    case False
    show ?thesis
    proof (cases "k = 1")
      case True
      with False show ?thesis by (simp add: digits.simps [of n] digits_not_empty)
    next
      case k: False
      with "1.prems" obtain j where j: "k = Suc j" "0 < j"
        by (cases k) auto
      from "1.IH" [OF False j(2)] have "j < length (digits (n div 10)) \<longleftrightarrow> 10 ^ j \<le> n div 10" .
      also have "\<dots> \<longleftrightarrow> 10 ^ j * 10 \<le> n"
        by (simp add: less_eq_div_iff_mult_less_eq)
      finally show ?thesis
        using False j by (simp add: digits.simps [of n] mult.commute)
    qed
  qed
qed

lemma json_dumps_error:
  \<open>json_dumps (PDict [(''error'', PStr m)]) = Inr (''{"error": '' @ json_string m @ ''}'')\<close>
  by (simp add: json_string_def escape_char_def)

section \<open>Shapes of the two operations' results\<close>

lemma list_flights_cases:
  "\<exists>r. list_flights st event = (Inr (PDict r), [Scan]) \<and> r \<noteq> [] \<and>
       map_of r ''statusCode'' \<in> {Some (PInt 200), Some (PInt 500)}"
  unfolding list_flights_def Let_def json_dumps_error by (auto split: sum.splits)

lemma get_flight_cases:
  "(\<exists>e. get_flight st event = (Inl e, [])) \<or>
   (\<exists>r calls. get_flight st event = (Inr (PDict r), calls) \<and> r \<noteq> [] \<and> length calls \<le> 1 \<and>
       map_of r ''statusCode'' \<in>
         {Some (PInt 200), Some (PInt 400), Some (PInt 404), Some (PInt 500)})"
  unfolding get_flight_def Let_def json_dumps_error by (auto split: sum.splits)

lemma or_else_list_flights: "or_else (list_flights st event) fallback = list_flights st event"
  using list_flights_cases [of st event] by (auto simp: or_else_def)

lemma or_else_get_flight: "or_else (get_flight st event) fallback = get_flight st event"
  using get_flight_cases [of st event] by (auto simp: or_else_def)

section \<open>Get Flight\<close>

text \<open>
  The two ways out of the found branch. With a non-empty \<open>flight_id\<close> and a lookup
  that returns a truthy item, the answer is 200 with the item under \<open>data\<close> when
  \<open>json.dumps\<close> accepts the item, and 500 with the encoder's message when it does not.
\<close>

lemma get_flight_found:
  assumes \<open>py_get (PDict event) ''pathParameters'' (PDict []) = Inr (PDict path_params)\<close>
    and \<open>map_of path_params ''flight_id'' = Some (PStr fid)\<close> and \<open>fid \<noteq> []\<close>
    and \<open>get_item st (PDict [(''flight_id'', PStr fid)]) = Inr (PDict response)\<close>
    and \<open>map_of response ''Item'' = Some item\<close> and \<open>truthy item\<close>
    and \<open>json_dumps (PDict [(''success'', PBool True), (''data'', item)]) = Inr body\<close>
  shows \<open>get_flight st event =
           (Inr (PDict [(''statusCode'', PInt 200),
                        (''headers'', PDict [(''Content-Type'', PStr ''application/json''),
                                            (''Access-Control-Allow-Origin'', PStr ''*'')]),
                        (''body'', PStr body)]),
            [GetItem (PDict [(''flight_id'', PStr fid)])])\<close>
  using assms unfolding get_flight_def Let_def by (simp del: json_dumps.simps)

lemma get_flight_not_serializable:
  assumes \<open>py_get (PDict event) ''pathParameters'' (PDict []) = Inr (PDict path_params)\<close>
    and \<open>map_of path_params ''flight_id'' = Some (PStr fid)\<close> and \<open>fid \<noteq> []\<close>
    and \<open>get_item st (PDict [(''flight_id'', PStr fid)]) = Inr (PDict response)\<close>
    and \<open>map_of response ''Item'' = Some item\<close> and \<open>truthy item\<close>
    and \<open>json_dumps (PDict [(''success'', PBool True), (''data'', item)]) = Inl e\<close>
  shows \<open>get_flight st event =
           (Inr (PDict [(''statusCode'', PInt 500),
                        (''body'', PStr (''{"error": '' @ json_string (py_str_exn e) @ ''}''))]),
            [GetItem (PDict [(''flight_id'', PStr fid)])])\<close>
  using assms unfolding get_flight_def Let_def
  by (simp del: json_dumps.simps add: json_dumps_error)

text \<open>
  C1. A found record is not always answered with 200. The store holds the record of the
  spec's example, \<open>flight_id\<close> FL123 with its price 89.99 and 45 seats, and the request
  is GET \<open>/flights/FL123\<close> with that \<open>flight_id\<close>. The lookup returns the record, its
  numbers as Decimals; \<open>json.dumps\<close> raises on the first of them inside \<open>try\<close>, and
  \<open>get_flight\<close> answers 500 with the encoder's message, not 200 with the record.
\<close>

theorem get_flight_decimal_record:
  \<open>get_item (table_store [flight_FL200, flight_FL123]) (PDict [(''flight_id'', PStr ''FL123'')]) =
     Inr (PDict [(''Item'', PDict
       [(''flight_id'', PStr ''FL123''), (''origin'', PStr ''MAD''),
        (''destination'', PStr ''BCN''), (''price'', PDecimal 8999 (-2)),
        (''available_seats'', PDecimal 45 0)])]) \<and>
   get_flight (table_store [flight_FL200, flight_FL123]) (get_event ''/flights/FL123'' ''FL123'') =
     (Inr (PDict [(''statusCode'', PInt 500),
                  (''body'', PStr ''{"error": "Object of type Decimal is not JSON serializable"}'')]),
      [GetItem (PDict [(''flight_id'', PStr ''FL123'')])])\<close>
proof -
  let ?item = \<open>PDict
       [(''flight_id'', PStr ''FL123''), (''origin'', PStr ''MAD''),
        (''destination'', PStr ''BCN''), (''price'', PDecimal 8999 (-2)),
        (''available_seats'', PDecimal 45 0)]\<close>
  have lookup: \<open>get_item (table_store [flight_FL200, flight_FL123])
                  (PDict [(''flight_id'', PStr ''FL123'')]) = Inr (PDict [(''Item'', ?item)])\<close>
    by (simp add: table_store_def flight_FL200_def flight_FL123_def)
  have raised: \<open>json_dumps (PDict [(''success'', PBool True), (''data'', ?item)]) =
                  Inl (TypeError ''Object of type Decimal is not JSON serializable'')\<close>
    by (simp add: json_string_def escape_char_def)
  have message: \<open>''{"error": '' @
        json_string (py_str_exn (TypeError ''Object of type Decimal is not JSON serializable'')) @
        ''}'' = ''{"error": "Object of type Decimal is not JSON serializable"}''\<close>
    by (simp add: json_string_def escape_char_def)
  have \<open>get_flight (table_store [flight_FL200, flight_FL123])
          (get_event ''/flights/FL123'' ''FL123'') =
        (Inr (PDict [(''statusCode'', PInt 500),
                     (''body'', PStr (''{"error": '' @
        json_string (py_str_exn (TypeError ''Object of type Decimal is not JSON serializable'')) @
        ''}''))]),
         [GetItem (PDict [(''flight_id'', PStr ''FL123'')])])\<close>
    by (rule get_flight_not_serializable
          [where path_params = "[(''flight_id'', PStr ''FL123'')]"
             and response = "[(''Item'', ?item)]" and item = ?item, OF _ _ _ lookup _ _ raised])
       (simp_all add: get_event_def)
  with lookup show ?thesis
    unfolding message by simp
qed

text \<open>
  C4. When the path-parameter mapping has no \<open>flight_id\<close>, or has the empty string for
  it, \<open>get_flight\<close> returns exactly status 400 with the body
  \<open>{"error": "Missing flight_id"}\<close>, and the log of store calls is empty.
\<close>

theorem get_flight_missing_id:
  assumes \<open>py_get (PDict event) ''pathParameters'' (PDict []) = Inr (PDict path_params)\<close>
    and \<open>map_of path_params ''flight_id'' = None \<or>
         map_of path_params ''flight_id'' = Some (PStr [])\<close>
  shows \<open>get_flight st event =
           (Inr (PDict [(''statusCode'', PInt 400),
                        (''body'', PStr ''{"error": "Missing flight_id"}'')]),
            [])\<close>
  using assms unfolding get_flight_def
  by (auto simp: json_string_def escape_char_def)

theorem get_flight_missing_id_witness:
  \<open>get_flight (table_store [flight_FL123])
      [(''httpMethod'', PStr ''GET''), (''path'', PStr ''/flights/'')] =
     (Inr (PDict [(''statusCode'', PInt 400),
                  (''body'', PStr ''{"error": "Missing flight_id"}'')]), []) \<and>
   get_flight (table_store [flight_FL123]) (get_event ''/flights/'' []) =
     (Inr (PDict [(''statusCode'', PInt 400),
                  (''body'', PStr ''{"error": "Missing flight_id"}'')]), [])\<close>
  using get_flight_missing_id [of "[(''httpMethod'', PStr ''GET''), (''path'', PStr ''/flights/'')]"
      "[]" "table_store [flight_FL123]"]
    get_flight_missing_id [of "get_event ''/flights/'' []" "[(''flight_id'', PStr [])]"
      "table_store [flight_FL123]"]
  by (simp add: get_event_def)

text \<open>
  C5. With a non-empty \<open>flight_id\<close>, when the store's lookup returns a response that has
  no item (no \<open>Item\<close> entry, or \<open>None\<close> for it), \<open>get_flight\<close> returns status 404 with the
  body \<open>{"error": "Flight not found"}\<close>.
\<close>

theorem get_flight_not_found:
  assumes \<open>py_get (PDict event) ''pathParameters'' (PDict []) = Inr (PDict path_params)\<close>
    and \<open>map_of path_params ''flight_id'' = Some (PStr fid)\<close> and \<open>fid \<noteq> []\<close>
    and \<open>get_item st (PDict [(''flight_id'', PStr fid)]) = Inr (PDict response)\<close>
    and \<open>map_of response ''Item'' = None \<or> map_of response ''Item'' = Some PNone\<close>
  shows \<open>get_flight st event =
           (Inr (PDict [(''statusCode'', PInt 404),
                        (''body'', PStr ''{"error": "Flight not found"}'')]),
            [GetItem (PDict [(''flight_id'', PStr fid)])])\<close>
  using assms unfolding get_flight_def Let_def
  by (auto simp: json_string_def escape_char_def)

theorem get_flight_not_found_witness:
  \<open>get_item (table_store [flight_FL123]) (PDict [(''flight_id'', PStr ''FL999'')])
     = Inr (PDict []) \<and>
   get_flight (table_store [flight_FL123]) (get_event ''/flights/FL999'' ''FL999'') =
     (Inr (PDict [(''statusCode'', PInt 404),
                  (''body'', PStr ''{"error": "Flight not found"}'')]),
      [GetItem (PDict [(''flight_id'', PStr ''FL999'')])])\<close>
proof -
  have lookup: \<open>get_item (table_store [flight_FL123]) (PDict [(''flight_id'', PStr ''FL999'')])
                = Inr (PDict [])\<close>
    by (simp add: table_store_def flight_FL123_def)
  show ?thesis
    using get_flight_not_found [of "get_event ''/flights/FL999'' ''FL999''"
        "[(''flight_id'', PStr ''FL999'')]" "''FL999''" "table_store [flight_FL123]" "[]"]
      lookup
    by (simp add: get_event_def)
qed

section \<open>List Flights\<close>

text \<open>
  The two ways out of a scan that succeeds: 200 with the \<open>Items\<close> of the response under
  \<open>data\<close>, as they came and in their order (the empty list when the response has none),
  when \<open>json.dumps\<close> accepts them, and 500 with the encoder's message when it does not.
\<close>

lemma list_flights_ok:
  assumes \<open>scan st = Inr (PDict response)\<close>
    and \<open>json_dumps (PDict [(''success'', PBool True),
           (''data'', case map_of response ''Items'' of
                        None \<Rightarrow> PList [] | Some items \<Rightarrow> items)]) = Inr body\<close>
  shows \<open>list_flights st event =
           (Inr (PDict [(''statusCode'', PInt 200),
                        (''headers'', PDict [(''Content-Type'', PStr ''application/json''),
                                            (''Access-Control-Allow-Origin'', PStr ''*'')]),
                        (''body'', PStr body)]),
            [Scan])\<close>
  using assms unfolding list_flights_def Let_def by (simp del: json_dumps.simps)

lemma list_flights_not_serializable:
  assumes \<open>scan st = Inr (PDict response)\<close>
    and \<open>json_dumps (PDict [(''success'', PBool True),
           (''data'', case map_of response ''Items'' of
                        None \<Rightarrow> PList [] | Some items \<Rightarrow> items)]) = Inl e\<close>
  shows \<open>list_flights st event =
           (Inr (PDict [(''statusCode'', PInt 500),
                        (''body'', PStr (''{"error": '' @ json_string (py_str_exn e) @ ''}''))]),
            [Scan])\<close>
  using assms unfolding list_flights_def Let_def
  by (simp del: json_dumps.simps add: json_dumps_error)

text \<open>
  C2. A successful scan is not always answered with 200. The store holds two records with
  number attributes (a seat count; a price and a seat count). The scan succeeds and
  returns both, the numbers as Decimals; \<open>json.dumps\<close> raises on the first of them
  inside \<open>try\<close>, and \<open>list_flights\<close> answers 500 with the encoder's message, not 200
  with the records.
\<close>

theorem list_flights_decimal_records:
  \<open>scan (table_store [flight_FL200, flight_FL123]) =
     Inr (PDict [(''Items'', PList
            [PDict [(''flight_id'', PStr ''FL200''), (''origin'', PStr ''BCN''),
                    (''destination'', PStr ''LIS''), (''available_seats'', PDecimal 0 0)],
             PDict [(''flight_id'', PStr ''FL123''), (''origin'', PStr ''MAD''),
                    (''destination'', PStr ''BCN''), (''price'', PDecimal 8999 (-2)),
                    (''available_seats'', PDecimal 45 0)]]),
          (''Count'', PInt 2), (''ScannedCount'', PInt 2)]) \<and>
   list_flights (table_store [flight_FL200, flight_FL123])
      [(''httpMethod'', PStr ''GET''), (''path'', PStr ''/flights'')] =
     (Inr (PDict [(''statusCode'', PInt 500),
                  (''body'', PStr ''{"error": "Object of type Decimal is not JSON serializable"}'')]),
      [Scan])\<close>
proof -
  let ?items = \<open>PList
            [PDict [(''flight_id'', PStr ''FL200''), (''origin'', PStr ''BCN''),
                    (''destination'', PStr ''LIS''), (''available_seats'', PDecimal 0 0)],
             PDict [(''flight_id'', PStr ''FL123''), (''origin'', PStr ''MAD''),
                    (''destination'', PStr ''BCN''), (''price'', PDecimal 8999 (-2)),
                    (''available_seats'', PDecimal 45 0)]]\<close>
  have sc: \<open>scan (table_store [flight_FL200, flight_FL123]) =
     Inr (PDict [(''Items'', ?items), (''Count'', PInt 2), (''ScannedCount'', PInt 2)])\<close>
    by (simp add: table_store_def flight_FL200_def flight_FL123_def)
  have raised: \<open>json_dumps (PDict [(''success'', PBool True), (''data'', ?items)]) =
                  Inl (TypeError ''Object of type Decimal is not JSON serializable'')\<close>
    by (simp add: json_string_def escape_char_def)
  have message: \<open>''{"error": '' @
        json_string (py_str_exn (TypeError ''Object of type Decimal is not JSON serializable'')) @
        ''}'' = ''{"error": "Object of type Decimal is not JSON serializable"}''\<close>
    by (simp add: json_string_def escape_char_def)
  have \<open>list_flights (table_store [flight_FL200, flight_FL123])
          [(''httpMethod'', PStr ''GET''), (''path'', PStr ''/flights'')] =
        (Inr (PDict [(''statusCode'', PInt 500),
                     (''body'', PStr (''{"error": '' @
        json_string (py_str_exn (TypeError ''Object of type Decimal is not JSON serializable'')) @
        ''}''))]),
         [Scan])\<close>
    by (rule list_flights_not_serializable [OF sc]) (simp add: raised del: json_dumps.simps)
  with sc show ?thesis
    unfolding message by simp
qed

section \<open>Store errors\<close>

text \<open>
  C6. When the store call raises an exception with the text \<open>m\<close>, List Flights and Get
  Flight return status 500 with the body \<open>json.dumps({'error': m})\<close>, which is
  \<open>{"error": "m"}\<close> with \<open>m\<close> as it is (in JSON's string notation); the store was
  called once. No invocation of either operation calls the store more than once.
\<close>

theorem store_error_500:
  \<open>json_dumps (PDict [(''error'', PStr m)]) = Inr (''{"error": '' @ json_string m @ ''}'') \<and>
   (scan st = Inl m \<longrightarrow>
      list_flights st event =
        (Inr (PDict [(''statusCode'', PInt 500),
                     (''body'', PStr (''{"error": '' @ json_string m @ ''}''))]),
         [Scan])) \<and>
   (py_get (PDict event) ''pathParameters'' (PDict []) = Inr path_params \<and>
    py_get path_params ''flight_id'' (PStr []) = Inr flight_id \<and> truthy flight_id \<and>
    get_item st (PDict [(''flight_id'', flight_id)]) = Inl m \<longrightarrow>
      get_flight st event =
        (Inr (PDict [(''statusCode'', PInt 500),
                     (''body'', PStr (''{"error": '' @ json_string m @ ''}''))]),
         [GetItem (PDict [(''flight_id'', flight_id)])])) \<and>
   length (snd (list_flights st event)) \<le> 1 \<and>
   length (snd (get_flight st event)) \<le> 1\<close>
proof (intro conjI impI)
  show \<open>json_dumps (PDict [(''error'', PStr m)]) = Inr (''{"error": '' @ json_string m @ ''}'')\<close>
    by (rule json_dumps_error)
  show "length (snd (list_flights st event)) \<le> 1"
    using list_flights_cases [of st event] by auto
  show "length (snd (get_flight st event)) \<le> 1"
    using get_flight_cases [of st event] by auto
qed (auto simp: list_flights_def get_flight_def Let_def json_dumps_error simp del: json_dumps.simps)

theorem store_error_500_witness:
  \<open>list_flights (failing_store ''An error occurred (ResourceNotFoundException)'')
      (get_event ''/flights/FL123'' ''FL123'') =
     (Inr (PDict [(''statusCode'', PInt 500),
                  (''body'', PStr ''{"error": "An error occurred (ResourceNotFoundException)"}'')]),
      [Scan]) \<and>
   get_flight (failing_store ''An error occurred (ResourceNotFoundException)'')
      (get_event ''/flights/FL123'' ''FL123'') =
     (Inr (PDict [(''statusCode'', PInt 500),
                  (''body'', PStr ''{"error": "An error occurred (ResourceNotFoundException)"}'')]),
      [GetItem (PDict [(''flight_id'', PStr ''FL123'')])])\<close>
proof -
  have body: \<open>''{"error": '' @ json_string ''An error occurred (ResourceNotFoundException)'' @ ''}''
      = ''{"error": "An error occurred (ResourceNotFoundException)"}''\<close>
    by (simp add: json_string_def escape_char_def)
  show ?thesis
    using store_error_500 [of "''An error occurred (ResourceNotFoundException)''"
        "failing_store ''An error occurred (ResourceNotFoundException)''"
        "get_event ''/flights/FL123'' ''FL123''"
        "PDict [(''flight_id'', PStr ''FL123'')]" "PStr ''FL123''"]
    unfolding body
    by (simp add: failing_store_def get_event_def)
qed

section \<open>Path parameters that are not a mapping\<close>

text \<open>
  C10. \<open>get_flight\<close> returns a response exactly when the event's \<open>pathParameters\<close> entry
  is absent or a dict. When the entry is present and \<open>None\<close>, \<open>None.get\<close> raises
  \<open>AttributeError\<close> before the missing-id check and outside \<open>try\<close>: \<open>get_flight\<close> raises,
  with no store call, and so does the router on a GET request it sends to Get Flight.
\<close>

theorem get_flight_null_path_parameters:
  \<open>((\<exists>r. fst (get_flight st event) = Inr r) \<longleftrightarrow>
      (map_of event ''pathParameters'' = None \<or>
       (\<exists>d. map_of event ''pathParameters'' = Some (PDict d)))) \<and>
   (map_of event ''pathParameters'' = Some PNone \<longrightarrow>
      get_flight st event =
        (Inl (AttributeError ('''NoneType' object has no attribute 'get'' @ [CHR 0x27])), []) \<and>
      (map_of event ''httpMethod'' = Some (PStr ''GET'') \<and>
       map_of event ''path'' = Some (PStr path) \<and> path \<noteq> ''/flights'' \<and>
       sublist ''/flights/'' path \<longrightarrow>
         flights_lambda_handler st event =
           (Inl (AttributeError ('''NoneType' object has no attribute 'get'' @ [CHR 0x27])), [])))\<close>
proof (intro conjI impI)
  show "(\<exists>r. fst (get_flight st event) = Inr r) \<longleftrightarrow>
      (map_of event ''pathParameters'' = None \<or>
       (\<exists>d. map_of event ''pathParameters'' = Some (PDict d)))"
  proof (cases "map_of event ''pathParameters''")
    case None
    then show ?thesis
      unfolding get_flight_def Let_def json_dumps_error by (simp split: sum.splits)
  next
    case (Some v)
    then show ?thesis
      unfolding get_flight_def Let_def json_dumps_error
      by (cases v) (simp_all split: sum.splits)
  qed
next
  assume "map_of event ''pathParameters'' = Some PNone"
  then show g: "get_flight st event =
        (Inl (AttributeError ('''NoneType' object has no attribute 'get'' @ [CHR 0x27])), [])"
    by (simp add: get_flight_def)
  assume "map_of event ''httpMethod'' = Some (PStr ''GET'') \<and>
       map_of event ''path'' = Some (PStr path) \<and> path \<noteq> ''/flights'' \<and>
       sublist ''/flights/'' path"
  then show "flights_lambda_handler st event =
        (Inl (AttributeError ('''NoneType' object has no attribute 'get'' @ [CHR 0x27])), [])"
    unfolding flights_lambda_handler_def g
    by (simp add: py_index_def or_else_def)
qed

theorem get_flight_null_path_parameters_witness:
  \<open>get_flight (table_store [flight_FL123])
      [(''httpMethod'', PStr ''GET''), (''path'', PStr ''/flights/FL123''),
       (''pathParameters'', PNone)] =
     (Inl (AttributeError ('''NoneType' object has no attribute 'get'' @ [CHR 0x27])), []) \<and>
   flights_lambda_handler (table_store [flight_FL123])
      [(''httpMethod'', PStr ''GET''), (''path'', PStr ''/flights/FL123''),
       (''pathParameters'', PNone)] =
     (Inl (AttributeError ('''NoneType' object has no attribute 'get'' @ [CHR 0x27])), [])\<close>
proof -
  have sub: "sublist ''/flights/'' ''/flights/FL123''"
    by code_simp
  show ?thesis
    using get_flight_null_path_parameters [of "table_store [flight_FL123]"
        "[(''httpMethod'', PStr ''GET''), (''path'', PStr ''/flights/FL123''),
          (''pathParameters'', PNone)]" "''/flights/FL123''"] sub
    by simp
qed

section \<open>The router\<close>

text \<open>
  C9, as the code has it. \<open>list_flights\<close> returns a non-empty dict for every request and
  every store. \<open>get_flight\<close> returns a non-empty dict for every store and every request
  whose \<open>pathParameters\<close> entry is absent or a dict; on any other request it raises and
  returns nothing. So the \<open>or\<close> of the router never takes its right-hand side: the
  router's result is the operation's own, and every response of the router has
  status 200, 400, 404 or 500, never 204.
\<close>

theorem router_never_204:
  \<open>(\<exists>r. list_flights st event = (Inr r, [Scan]) \<and> truthy r) \<and>
   (map_of event ''pathParameters'' = None \<or>
    (\<exists>d. map_of event ''pathParameters'' = Some (PDict d)) \<longrightarrow>
      (\<exists>r. fst (get_flight st event) = Inr r \<and> truthy r)) \<and>
   (\<forall>r. fst (get_flight st event) = Inr r \<longrightarrow> truthy r) \<and>
   or_else (list_flights st event) fallback = list_flights st event \<and>
   or_else (get_flight st event) fallback = get_flight st event \<and>
   (\<forall>r. fst (flights_lambda_handler st event) = Inr r \<longrightarrow>
      status_code r \<in> {Some (PInt 200), Some (PInt 400), Some (PInt 404), Some (PInt 500)} \<and>
      status_code r \<noteq> Some (PInt 204))\<close>
proof -
  have l: "\<exists>r. list_flights st event = (Inr r, [Scan]) \<and> truthy r"
    using list_flights_cases [of st event] by auto
  have g: "\<forall>r. fst (get_flight st event) = Inr r \<longrightarrow> truthy r"
    using get_flight_cases [of st event] by auto
  have returns: "\<exists>r. fst (get_flight st event) = Inr r"
    if "map_of event ''pathParameters'' = None \<or>
        (\<exists>d. map_of event ''pathParameters'' = Some (PDict d))"
    using that unfolding get_flight_def Let_def json_dumps_error
    by (auto split: sum.splits)
  have sl: "fst (list_flights st event) = Inr r \<Longrightarrow>
      status_code r \<in> {Some (PInt 200), Some (PInt 500)}" for r
    using list_flights_cases [of st event] by (auto simp: status_code_def)
  have sg: "fst (get_flight st event) = Inr r \<Longrightarrow>
      status_code r \<in> {Some (PInt 200), Some (PInt 400), Some (PInt 404), Some (PInt 500)}" for r
    using get_flight_cases [of st event] by (auto simp: status_code_def)
  have "\<forall>r. fst (flights_lambda_handler st event) = Inr r \<longrightarrow>
      status_code r \<in> {Some (PInt 200), Some (PInt 400), Some (PInt 404), Some (PInt 500)}"
    unfolding flights_lambda_handler_def Let_def or_else_list_flights or_else_get_flight
      json_dumps_error
    using sl sg by (auto simp: status_code_def split: sum.splits)
  with l g returns show ?thesis
    by (auto simp: or_else_list_flights or_else_get_flight)
qed

theorem router_never_204_witness:
  \<open>get_flight (table_store [flight_FL300]) (get_event ''/flights/FL300'' ''FL300'') =
     (Inr (PDict [(''statusCode'', PInt 200),
                  (''headers'', PDict [(''Content-Type'', PStr ''application/json''),
                                      (''Access-Control-Allow-Origin'', PStr ''*'')]),
                  (''body'', PStr ''{"success": true, "data": {"flight_id": "FL300", "origin": "MAD", "destination": "BCN", "departure_time": "2024-11-15T10:00:00Z"}}'')]),
      [GetItem (PDict [(''flight_id'', PStr ''FL300'')])]) \<and>
   flights_lambda_handler (table_store [flight_FL300]) (get_event ''/flights/FL300'' ''FL300'') =
     get_flight (table_store [flight_FL300]) (get_event ''/flights/FL300'' ''FL300'') \<and>
   status_code (PDict [(''statusCode'', PInt 200),
                  (''headers'', PDict [(''Content-Type'', PStr ''application/json''),
                                      (''Access-Control-Allow-Origin'', PStr ''*'')]),
                  (''body'', PStr ''{"success": true, "data": {"flight_id": "FL300", "origin": "MAD", "destination": "BCN", "departure_time": "2024-11-15T10:00:00Z"}}'')])
     = Some (PInt 200)\<close>
proof -
  let ?st = "table_store [flight_FL300]" and ?ev = "get_event ''/flights/FL300'' ''FL300''"
  have sub: "sublist ''/flights/'' ''/flights/FL300''"
    by code_simp
  have body: \<open>json_dumps (PDict [(''success'', PBool True),
                  (''data'', deserialize (AttrM flight_FL300))]) =
      Inr ''{"success": true, "data": {"flight_id": "FL300", "origin": "MAD", "destination": "BCN", "departure_time": "2024-11-15T10:00:00Z"}}''\<close>
    unfolding flight_FL300_def by code_simp
  have run: \<open>get_flight ?st ?ev =
     (Inr (PDict [(''statusCode'', PInt 200),
                  (''headers'', PDict [(''Content-Type'', PStr ''application/json''),
                                      (''Access-Control-Allow-Origin'', PStr ''*'')]),
                  (''body'', PStr ''{"success": true, "data": {"flight_id": "FL300", "origin": "MAD", "destination": "BCN", "departure_time": "2024-11-15T10:00:00Z"}}'')]),
      [GetItem (PDict [(''flight_id'', PStr ''FL300'')])])\<close>
    by (rule get_flight_found [where path_params = "[(''flight_id'', PStr ''FL300'')]"
          and response = "[(''Item'', deserialize (AttrM flight_FL300))]"
          and item = "deserialize (AttrM flight_FL300)", OF _ _ _ _ _ _ body])
       (simp_all add: get_event_def table_store_def flight_FL300_def)
  have route: "flights_lambda_handler ?st ?ev = or_else (get_flight ?st ?ev)
      (PDict [(''statusCode'', PInt 204), (''body'', PStr ''Flight not found'')])"
    unfolding flights_lambda_handler_def using sub
    by (simp add: py_index_def get_event_def)
  show ?thesis
    using router_never_204 [of ?st ?ev
        "PDict [(''statusCode'', PInt 204), (''body'', PStr ''Flight not found'')]"] run route
    by (simp add: status_code_def)
qed

text \<open>
  C9 as the spec words it fails in its first half: on a GET request for
  \<open>/flights/FL300\<close> whose \<open>pathParameters\<close> entry is \<open>None\<close>, \<open>get_flight\<close> returns no
  response dict at all. It raises, and the router with it.
\<close>

theorem get_flight_returns_nothing_counterexample:
  \<open>fst (get_flight (table_store [flight_FL300])
      [(''httpMethod'', PStr ''GET''), (''path'', PStr ''/flights/FL300''),
       (''pathParameters'', PNone)]) =
     Inl (AttributeError ('''NoneType' object has no attribute 'get'' @ [CHR 0x27])) \<and>
   fst (flights_lambda_handler (table_store [flight_FL300])
      [(''httpMethod'', PStr ''GET''), (''path'', PStr ''/flights/FL300''),
       (''pathParameters'', PNone)]) =
     Inl (AttributeError ('''NoneType' object has no attribute 'get'' @ [CHR 0x27]))\<close>
proof -
  have sub: "sublist ''/flights/'' ''/flights/FL300''"
    by code_simp
  then show ?thesis
    by (simp add: flights_lambda_handler_def get_flight_def or_else_def py_index_def)
qed

text \<open>
  C3, as the code has it. For a request whose method and path are strings: List Flights
  runs exactly when the method is GET and the path is \<open>/flights\<close>; Get Flight runs
  exactly when the method is GET, the path is not \<open>/flights\<close>, and \<open>/flights/\<close> occurs
  anywhere in the path (not only at its start); every other request gets status 404
  with the body \<open>{"error": "Not found"}\<close> and no store call.
\<close>

theorem router_dispatch:
  assumes \<open>map_of event ''httpMethod'' = Some (PStr method)\<close>
    and \<open>map_of event ''path'' = Some (PStr path)\<close>
  shows \<open>flights_lambda_handler st event =
           (if method = ''GET'' \<and> path = ''/flights'' then list_flights st event
            else if method = ''GET'' \<and> sublist ''/flights/'' path then get_flight st event
            else (Inr (PDict [(''statusCode'', PInt 404),
                              (''body'', PStr ''{"error": "Not found"}'')]),
                  []))\<close>
  using assms unfolding flights_lambda_handler_def
  by (auto simp: Let_def py_index_def or_else_list_flights or_else_get_flight
      json_string_def escape_char_def)

theorem router_dispatch_witness:
  \<open>flights_lambda_handler (table_store [flight_FL123]) (get_event ''/flights'' []) =
     list_flights (table_store [flight_FL123]) (get_event ''/flights'' []) \<and>
   flights_lambda_handler (table_store [flight_FL123]) (get_event ''/flights/FL123'' ''FL123'') =
     get_flight (table_store [flight_FL123]) (get_event ''/flights/FL123'' ''FL123'') \<and>
   flights_lambda_handler (table_store [flight_FL123])
      [(''httpMethod'', PStr ''PUT''), (''path'', PStr ''/flights'')] =
     (Inr (PDict [(''statusCode'', PInt 404), (''body'', PStr ''{"error": "Not found"}'')]),
      [])\<close>
proof -
  have sub: "sublist ''/flights/'' ''/flights/FL123''"
    by code_simp
  show ?thesis
    using router_dispatch [of "get_event ''/flights'' []" "''GET''" "''/flights''"
        "table_store [flight_FL123]"]
      router_dispatch [of "get_event ''/flights/FL123'' ''FL123''" "''GET''" "''/flights/FL123''"
        "table_store [flight_FL123]"]
      router_dispatch [of "[(''httpMethod'', PStr ''PUT''), (''path'', PStr ''/flights'')]"
        "''PUT''" "''/flights''" "table_store [flight_FL123]"]
      sub
    by (simp add: get_event_def)
qed

text \<open>
  C3 with "the collection path as a prefix" fails: the path \<open>/v1/flights/FL300\<close> does
  not start with \<open>/flights\<close>, yet a GET request for it is not answered with the
  router's 404: it goes to Get Flight, which reads the store and returns the record.
\<close>

theorem router_prefix_counterexample:
  \<open>\<not> prefix ''/flights'' ''/v1/flights/FL300'' \<and>
   flights_lambda_handler (table_store [flight_FL300]) (get_event ''/v1/flights/FL300'' ''FL300'') =
     get_flight (table_store [flight_FL300]) (get_event ''/v1/flights/FL300'' ''FL300'') \<and>
   flights_lambda_handler (table_store [flight_FL300]) (get_event ''/v1/flights/FL300'' ''FL300'') =
     (Inr (PDict [(''statusCode'', PInt 200),
                  (''headers'', PDict [(''Content-Type'', PStr ''application/json''),
                                      (''Access-Control-Allow-Origin'', PStr ''*'')]),
                  (''body'', PStr ''{"success": true, "data": {"flight_id": "FL300", "origin": "MAD", "destination": "BCN", "departure_time": "2024-11-15T10:00:00Z"}}'')]),
      [GetItem (PDict [(''flight_id'', PStr ''FL300'')])])\<close>
proof -
  let ?st = "table_store [flight_FL300]" and ?ev = "get_event ''/v1/flights/FL300'' ''FL300''"
  have sub: "sublist ''/flights/'' ''/v1/flights/FL300''"
    by code_simp
  have route: \<open>flights_lambda_handler ?st ?ev = get_flight ?st ?ev\<close>
    unfolding flights_lambda_handler_def using sub
    by (simp add: py_index_def get_event_def or_else_get_flight)
  have body: \<open>json_dumps (PDict [(''success'', PBool True),
                  (''data'', deserialize (AttrM flight_FL300))]) =
      Inr ''{"success": true, "data": {"flight_id": "FL300", "origin": "MAD", "destination": "BCN", "departure_time": "2024-11-15T10:00:00Z"}}''\<close>
    unfolding flight_FL300_def by code_simp
  have run: \<open>get_flight ?st ?ev =
     (Inr (PDict [(''statusCode'', PInt 200),
                  (''headers'', PDict [(''Content-Type'', PStr ''application/json''),
                                      (''Access-Control-Allow-Origin'', PStr ''*'')]),
                  (''body'', PStr ''{"success": true, "data": {"flight_id": "FL300", "origin": "MAD", "destination": "BCN", "departure_time": "2024-11-15T10:00:00Z"}}'')]),
      [GetItem (PDict [(''flight_id'', PStr ''FL300'')])])\<close>
    by (rule get_flight_found [where path_params = "[(''flight_id'', PStr ''FL300'')]"
          and response = "[(''Item'', deserialize (AttrM flight_FL300))]"
          and item = "deserialize (AttrM flight_FL300)", OF _ _ _ _ _ _ body])
       (simp_all add: get_event_def table_store_def flight_FL300_def)
  show ?thesis
    unfolding route run by simp
qed

section \<open>Response headers\<close>

text \<open>
  C7. The error responses carry no headers at all: the router's 404 (PUT \<open>/flights\<close>),
  Get Flight's 400 (no \<open>flight_id\<close>) and 404 (no such record), and the 500 of a failed
  scan are dicts of \<open>statusCode\<close> and \<open>body\<close> only.
\<close>

theorem error_responses_without_headers:
  \<open>flights_lambda_handler (table_store [flight_FL123])
      [(''httpMethod'', PStr ''PUT''), (''path'', PStr ''/flights'')] =
     (Inr (PDict [(''statusCode'', PInt 404), (''body'', PStr ''{"error": "Not found"}'')]),
      []) \<and>
   response_headers
     (PDict [(''statusCode'', PInt 404), (''body'', PStr ''{"error": "Not found"}'')]) = None \<and>
   fst (get_flight (table_store [flight_FL123]) (get_event ''/flights/'' [])) =
     Inr (PDict [(''statusCode'', PInt 400),
                 (''body'', PStr ''{"error": "Missing flight_id"}'')]) \<and>
   fst (get_flight (table_store [flight_FL123]) (get_event ''/flights/FL999'' ''FL999'')) =
     Inr (PDict [(''statusCode'', PInt 404),
                 (''body'', PStr ''{"error": "Flight not found"}'')]) \<and>
   fst (list_flights (failing_store ''timeout'') (get_event ''/flights'' [])) =
     Inr (PDict [(''statusCode'', PInt 500), (''body'', PStr ''{"error": "timeout"}'')])\<close>
  by (simp add: flights_lambda_handler_def get_flight_def list_flights_def py_index_def
      get_event_def table_store_def failing_store_def flight_FL123_def response_headers_def
      json_string_def escape_char_def)

section \<open>The stubs\<close>

text \<open>
  What the three stubs do on an event that \<open>json.dumps\<close> can print and that has strings
  for \<open>httpMethod\<close> and \<open>path\<close>: status 501, the two headers, and a body that repeats the
  path and the method. The users stub needs the \<open>headers\<close> entry to be absent or a
  dict; its \<open>has_auth_header\<close> is true when \<open>Authorization\<close> has a truthy value, or else
  when \<open>authorization\<close> has a value other than \<open>None\<close>.
\<close>

lemma auth_stub_501:
  assumes \<open>json_dumps (PDict event) = Inr dumped\<close>
    and \<open>map_of event ''httpMethod'' = Some (PStr http_method)\<close>
    and \<open>map_of event ''path'' = Some (PStr path)\<close>
  shows \<open>auth_lambda_handler event =
           (Inr (PDict [(''statusCode'', PInt 501),
                        (''headers'', PDict [(''Content-Type'', PStr ''application/json''),
                                            (''Access-Control-Allow-Origin'', PStr ''*'')]),
                        (''body'', PStr (''{"message": "Auth endpoint not implemented yet", "received_path": '' @
                           json_string path @ '', "received_method": '' @
                           json_string http_method @ ''}''))]),
            [''Received event: '' @ dumped])\<close>
proof -
  have body: \<open>json_dumps (PDict
             [(''message'', PStr ''Auth endpoint not implemented yet''),
              (''received_path'', PStr path),
              (''received_method'', PStr http_method)]) =
      Inr (''{"message": "Auth endpoint not implemented yet", "received_path": '' @
             json_string path @ '', "received_method": '' @ json_string http_method @ ''}'')\<close>
    by (simp add: json_string_def escape_char_def)
  show ?thesis
    using assms unfolding auth_lambda_handler_def Let_def py_index_def
    by (simp add: body del: json_dumps.simps)
qed

lemma bookings_stub_501:
  assumes \<open>json_dumps (PDict event) = Inr dumped\<close>
    and \<open>map_of event ''httpMethod'' = Some (PStr http_method)\<close>
    and \<open>map_of event ''path'' = Some (PStr path)\<close>
  shows \<open>bookings_lambda_handler event =
           (Inr (PDict [(''statusCode'', PInt 501),
                        (''headers'', PDict [(''Content-Type'', PStr ''application/json''),
                                            (''Access-Control-Allow-Origin'', PStr ''*'')]),
                        (''body'', PStr (''{"message": "Bookings endpoint not implemented yet", "received_path": '' @
                           json_string path @ '', "received_method": '' @
                           json_string http_method @
                           '', "note": "Will handle: create booking, list bookings, cancel booking"}''))]),
            [''Received event: '' @ dumped])\<close>
proof -
  have body: \<open>json_dumps (PDict
             [(''message'', PStr ''Bookings endpoint not implemented yet''),
              (''received_path'', PStr path),
              (''received_method'', PStr http_method),
              (''note'', PStr ''Will handle: create booking, list bookings, cancel booking'')]) =
      Inr (''{"message": "Bookings endpoint not implemented yet", "received_path": '' @
             json_string path @ '', "received_method": '' @ json_string http_method @
             '', "note": "Will handle: create booking, list bookings, cancel booking"}'')\<close>
    by (simp add: json_string_def escape_char_def)
  show ?thesis
    using assms unfolding bookings_lambda_handler_def Let_def py_index_def
    by (simp add: body del: json_dumps.simps)
qed

lemma users_stub_501:
  assumes \<open>json_dumps (PDict event) = Inr dumped\<close>
    and \<open>map_of event ''httpMethod'' = Some (PStr http_method)\<close>
    and \<open>map_of event ''path'' = Some (PStr path)\<close>
    and \<open>py_get (PDict event) ''headers'' (PDict []) = Inr (PDict headers)\<close>
  shows \<open>users_lambda_handler event =
           (Inr (PDict [(''statusCode'', PInt 501),
                        (''headers'', PDict [(''Content-Type'', PStr ''application/json''),
                                            (''Access-Control-Allow-Origin'', PStr ''*'')]),
                        (''body'', PStr (''{"message": "Users endpoint not implemented yet", "received_path": '' @
                           json_string path @ '', "received_method": '' @
                           json_string http_method @ '', "has_auth_header": '' @
                           (if (\<exists>v. map_of headers ''Authorization'' = Some v \<and> truthy v) \<or>
                               (\<exists>v. map_of headers ''authorization'' = Some v \<and> v \<noteq> PNone)
                            then ''true'' else ''false'') @
                           '', "note": "Will return user profile based on JWT token"}''))]),
            [''Received event: '' @ dumped])\<close>
proof -
  have body: \<open>json_dumps (PDict
             [(''message'', PStr ''Users endpoint not implemented yet''),
              (''received_path'', PStr path),
              (''received_method'', PStr http_method),
              (''has_auth_header'', PBool b),
              (''note'', PStr ''Will return user profile based on JWT token'')]) =
      Inr (''{"message": "Users endpoint not implemented yet", "received_path": '' @
             json_string path @ '', "received_method": '' @ json_string http_method @
             '', "has_auth_header": '' @ (if b then ''true'' else ''false'') @
             '', "note": "Will return user profile based on JWT token"}'')\<close> for b
    by (simp add: json_string_def escape_char_def)
  have upper: "py_get (PDict headers) ''Authorization'' PNone =
      Inr (case map_of headers ''Authorization'' of None \<Rightarrow> PNone | Some v \<Rightarrow> v)"
    by simp
  have lower: "py_get (PDict headers) ''authorization'' PNone =
      Inr (case map_of headers ''authorization'' of None \<Rightarrow> PNone | Some v \<Rightarrow> v)"
    by simp
  show ?thesis
    using assms unfolding users_lambda_handler_def Let_def py_index_def upper lower
    by (cases "map_of headers ''Authorization''"; cases "map_of headers ''authorization''")
       (auto simp: body simp del: json_dumps.simps)
qed

lemma users_stub_null_headers:
  assumes \<open>json_dumps (PDict event) = Inr dumped\<close>
    and \<open>map_of event ''httpMethod'' = Some http_method\<close>
    and \<open>map_of event ''path'' = Some path\<close>
    and \<open>map_of event ''headers'' = Some PNone\<close>
  shows \<open>users_lambda_handler event =
           (Inl (AttributeError ('''NoneType' object has no attribute 'get'' @ [CHR 0x27])),
            [''Received event: '' @ dumped])\<close>
  using assms unfolding users_lambda_handler_def Let_def py_index_def
  by (simp del: json_dumps.simps)

text \<open>
  C8. A request to the users stub with the header \<open>Authorization\<close> present and empty:
  the stub answers 501 and repeats path and method, and reports
  \<open>has_auth_header\<close> false, although the header is there. (The same empty value under
  \<open>authorization\<close> is reported as true.)
\<close>

theorem users_stub_empty_authorization:
  \<open>fst (users_lambda_handler
      [(''httpMethod'', PStr ''GET''), (''path'', PStr ''/users/me''),
       (''headers'', PDict [(''Authorization'', PStr [])])]) =
     Inr (PDict [(''statusCode'', PInt 501),
                 (''headers'', PDict [(''Content-Type'', PStr ''application/json''),
                                     (''Access-Control-Allow-Origin'', PStr ''*'')]),
                 (''body'', PStr ''{"message": "Users endpoint not implemented yet", "received_path": "/users/me", "received_method": "GET", "has_auth_header": false, "note": "Will return user profile based on JWT token"}'')]) \<and>
   fst (users_lambda_handler
      [(''httpMethod'', PStr ''GET''), (''path'', PStr ''/users/me''),
       (''headers'', PDict [(''authorization'', PStr [])])]) =
     Inr (PDict [(''statusCode'', PInt 501),
                 (''headers'', PDict [(''Content-Type'', PStr ''application/json''),
                                     (''Access-Control-Allow-Origin'', PStr ''*'')]),
                 (''body'', PStr ''{"message": "Users endpoint not implemented yet", "received_path": "/users/me", "received_method": "GET", "has_auth_header": true, "note": "Will return user profile based on JWT token"}'')])\<close>
proof -
  have quoted_path: \<open>json_string ''/users/me'' = [CHR 0x22] @ ''/users/me'' @ [CHR 0x22]\<close>
    and quoted_get: \<open>json_string ''GET'' = [CHR 0x22] @ ''GET'' @ [CHR 0x22]\<close>
    by (simp_all add: json_string_def escape_char_def)
  have d0: \<open>\<exists>dumped. json_dumps (PDict
      [(''httpMethod'', PStr ''GET''), (''path'', PStr ''/users/me''),
       (''headers'', PDict [(''Authorization'', PStr [])])]) = Inr dumped\<close>
    by simp
  have d1: \<open>\<exists>dumped. json_dumps (PDict
      [(''httpMethod'', PStr ''GET''), (''path'', PStr ''/users/me''),
       (''headers'', PDict [(''authorization'', PStr [])])]) = Inr dumped\<close>
    by simp
  from d0 obtain dumped0 where d0': \<open>json_dumps (PDict
      [(''httpMethod'', PStr ''GET''), (''path'', PStr ''/users/me''),
       (''headers'', PDict [(''Authorization'', PStr [])])]) = Inr dumped0\<close> ..
  from d1 obtain dumped1 where d1': \<open>json_dumps (PDict
      [(''httpMethod'', PStr ''GET''), (''path'', PStr ''/users/me''),
       (''headers'', PDict [(''authorization'', PStr [])])]) = Inr dumped1\<close> ..
  show ?thesis
    using users_stub_501 [OF d0', of "''GET''" "''/users/me''" "[(''Authorization'', PStr [])]"]
      users_stub_501 [OF d1', of "''GET''" "''/users/me''" "[(''authorization'', PStr [])]"]
    by (simp add: quoted_path quoted_get)
qed

end
